theory Spec2Isabelle
  imports Complex_Main "HOL-Library.Sublist"
begin

section \<open>The mock chat-completion server (scripts/mock-llm-server.py)\<close>

text \<open>
  The handler \<open>MockLLMHandler.do_POST\<close> and its helper \<open>generate_mock_response\<close> are
  embedded as HOL functions. What the handler does to the outside world (reading the
  request body, logging, writing the reply) is returned as a list of effects in the order
  the code performs them; an exception that leaves the handler is returned next to it.

  Library functions of Python whose code is not part of the repository (\<open>urlparse\<close>,
  \<open>int\<close> on a string, \<open>bytes.decode\<close>, \<open>json.loads\<close>, \<open>str\<close> of a non-string
  value, \<open>time.time\<close>, \<open>time.strftime\<close>, float arithmetic) are fields of a record
  \<open>runtime\<close> that every definition takes as a parameter. The type variable \<open>'f\<close> is
  Python's \<open>float\<close>.

  A Python \<open>str\<close> is a \<open>string\<close>, one character per code point; HOL characters have
  eight bits, so the texts covered are those of code points below 256. Bytes are
  \<open>string\<close>s as well.
\<close>

subsection \<open>Python values\<close>

type_synonym bytes = string

datatype exn =
    TypeError
  | ValueError
  | AttributeError
  | UnicodeDecodeError
  | JSONDecodeError
  | RecursionError
  | OverflowError
  | MemoryError

text \<open>What \<open>json.loads\<close> returns. A \<open>dict\<close> is the list of its items (keys distinct).\<close>

datatype 'f json =
    JNull
  | JBool bool
  | JInt int
  | JFloat 'f
  | JStr string
  | JArr "'f json list"
  | JObj "(string \<times> 'f json) list"

record 'f runtime =
  urlparse_path :: "string \<Rightarrow> exn + string"
  int_of_str :: "string \<Rightarrow> int option"
  utf8_decode :: "bytes \<Rightarrow> exn + string"
  json_loads :: "string \<Rightarrow> exn + 'f json"
  str_of :: "'f json \<Rightarrow> string"
  strftime :: "string \<Rightarrow> string"
  time_time :: "nat \<Rightarrow> 'f"
  float_of_decimal :: "rat \<Rightarrow> 'f"
  float_of_int :: "int \<Rightarrow> 'f"
  float_mul :: "'f \<Rightarrow> 'f \<Rightarrow> 'f"
  float_add :: "'f \<Rightarrow> 'f \<Rightarrow> 'f"
  int_of_float :: "'f \<Rightarrow> int"
  read_alloc :: "int \<Rightarrow> exn option"

text \<open>
  \<^item> \<open>urlparse_path rt p\<close> is \<open>urlparse(p).path\<close>; \<open>Inl e\<close> where \<open>urlparse\<close> raises \<open>e\<close>.
  \<^item> \<open>int_of_str rt s\<close> is \<open>int(s)\<close> for a string \<open>s\<close>; \<open>None\<close> where it raises
    \<open>ValueError\<close>.
  \<^item> \<open>utf8_decode rt b\<close> is \<open>b.decode('utf-8')\<close> and \<open>json_loads rt s\<close> is
    \<open>json.loads(s)\<close>; \<open>Inl e\<close> where they raise \<open>e\<close>.
  \<^item> \<open>str_of rt v\<close> is \<open>str(v)\<close> for a value \<open>v\<close> that is not a string.
  \<^item> \<open>strftime rt fmt\<close> is \<open>time.strftime(fmt)\<close> at the moment of the call.
  \<^item> \<open>time_time rt k\<close> is what the \<open>k\<close>-th call of \<open>time.time()\<close> during the request
    returns (counted from 0).
  \<^item> \<open>float_of_decimal rt q\<close> is the float denoted by the decimal literal of value \<open>q\<close>,
    \<open>float_of_int\<close> the conversion of an \<open>int\<close> operand, \<open>float_mul\<close> and
    \<open>float_add\<close> are \<open>*\<close> and \<open>+\<close> on floats, \<open>int_of_float rt x\<close> is \<open>int(x)\<close>.
  \<^item> \<open>read_alloc rt n\<close> is the exception that \<open>self.rfile.read(n)\<close> raises when it cannot
    get a buffer of \<open>n\<close> bytes (\<open>MemoryError\<close>, or \<open>OverflowError\<close> close to \<open>2^63\<close>:
    where this begins depends on the machine); \<open>None\<close> when it can.
\<close>

subsection \<open>Strings\<close>

text \<open>\<open>str.lower\<close> on one code point below 256.\<close>

definition lower_char :: "char \<Rightarrow> char" where
  "lower_char c =
     (let n = (of_char c :: nat)
      in if (65 \<le> n \<and> n \<le> 90) \<or> (192 \<le> n \<and> n \<le> 222 \<and> n \<noteq> 215)
         then char_of (n + 32) else c)"

definition lower :: "string \<Rightarrow> string" where
  "lower s = map lower_char s"

text \<open>\<open>str.isspace\<close> on one code point below 256: the separators of \<open>str.split()\<close>.\<close>

definition isspace :: "char \<Rightarrow> bool" where
  "isspace c =
     (let n = (of_char c :: nat)
      in (9 \<le> n \<and> n \<le> 13) \<or> (28 \<le> n \<and> n \<le> 32) \<or> n = 133 \<or> n = 160)"

text \<open>\<open>needle in haystack\<close> for strings.\<close>

fun py_in :: "string \<Rightarrow> string \<Rightarrow> bool" where
  "py_in needle [] = (needle = [])"
| "py_in needle (c # cs) = (prefix needle (c # cs) \<or> py_in needle cs)"

text \<open>\<open>s.split()\<close>: the maximal runs of non-space characters; \<open>w\<close> is the run being read.\<close>

fun split_from :: "string \<Rightarrow> string \<Rightarrow> string list" where
  "split_from w [] = (if w = [] then [] else [w])"
| "split_from w (c # cs) =
     (if isspace c then (if w = [] then split_from [] cs else w # split_from [] cs)
      else split_from (w @ [c]) cs)"

definition split :: "string \<Rightarrow> string list" where
  "split s = split_from [] s"

text \<open>\<open>str(i)\<close> for an \<open>int\<close>: its decimal digits.\<close>

definition digit_char :: "nat \<Rightarrow> char" where
  "digit_char d = char_of (48 + d)"

fun digits :: "nat \<Rightarrow> string" where
  "digits n = (if n < 10 then [digit_char n] else digits (n div 10) @ [digit_char (n mod 10)])"

declare digits.simps [simp del]

definition str_int :: "int \<Rightarrow> string" where
  "str_int i = (if i < 0 then CHR ''-'' # digits (nat (- i)) else digits (nat i))"

text \<open>\<open>str(v)\<close> as an f-string applies it: a string is itself.\<close>

definition py_str :: "'f runtime \<Rightarrow> 'f json \<Rightarrow> string" where
  "py_str rt v = (case v of JStr s \<Rightarrow> s | _ \<Rightarrow> str_of rt v)"

subsection \<open>\<open>generate_mock_response\<close>\<close>

definition greeting_reply :: string where
  "greeting_reply =
     ''Hello! I'm a mock AI assistant running in the Crowd Models test environment. How can I help you today?''"

definition name_reply :: "'f runtime \<Rightarrow> 'f json \<Rightarrow> string" where
  "name_reply rt model =
     ''I'm a mock version of '' @ py_str rt model
     @ '', running on the Crowd Models decentralized network for testing purposes.''"

definition code_reply :: string where
  "code_reply =
     ''Here's a simple Python example:'' @ [CHR 0x0A, CHR 0x0A]
     @ ''```python'' @ [CHR 0x0A]
     @ ''def hello_world():'' @ [CHR 0x0A]
     @ ''    print('' @ [CHR 0x22] @ ''Hello from the Crowd Models network!'' @ [CHR 0x22] @ '')''
     @ [CHR 0x0A]
     @ ''    return '' @ [CHR 0x22] @ ''Success'' @ [CHR 0x22] @ [CHR 0x0A, CHR 0x0A]
     @ ''# This is a mock response for testing'' @ [CHR 0x0A]
     @ ''hello_world()'' @ [CHR 0x0A]
     @ ''```'' @ [CHR 0x0A, CHR 0x0A]
     @ ''This is a mock code response generated for testing the Crowd Models P2P network.''"

definition math_reply :: string where
  "math_reply =
     ''I can help with math! For example: 2 + 2 = 4, and the square root of 16 is 4. This is a mock mathematical response for testing purposes.''"

definition story_reply :: string where
  "story_reply =
     ''Once upon a time, in a decentralized network far, far away, there lived a mock AI assistant. This assistant helped test the Crowd Models P2P network by providing consistent responses to various prompts. ''
     @ [CHR 0x0A, CHR 0x0A]
     @ ''The assistant was happy to serve researchers and developers who were building the future of distributed AI systems. And they all lived efficiently ever after.''
     @ [CHR 0x0A, CHR 0x0A]
     @ ''*This is a mock story response for testing.*''"

definition fallback_reply :: "'f runtime \<Rightarrow> string \<Rightarrow> 'f json \<Rightarrow> string" where
  "fallback_reply rt prompt model =
     ''This is a mock response generated by the test LLM server for the Crowd Models network.''
     @ [CHR 0x0A, CHR 0x0A]
     @ ''Your prompt was: '' @ [CHR 0x22] @ take 100 prompt
     @ (if length prompt > 100 then ''...'' else '''') @ [CHR 0x22] @ [CHR 0x0A, CHR 0x0A]
     @ ''Model: '' @ py_str rt model @ [CHR 0x0A]
     @ ''Time: '' @ strftime rt ''%Y-%m-%d %H:%M:%S'' @ [CHR 0x0A, CHR 0x0A]
     @ ''This response is generated for testing purposes and demonstrates that the P2P network is functioning correctly.''"

definition generate_mock_response :: "'f runtime \<Rightarrow> string \<Rightarrow> 'f json \<Rightarrow> string" where
  "generate_mock_response rt prompt model =
     (let prompt_lower = lower prompt
      in if py_in ''hello'' prompt_lower \<or> py_in ''hi'' prompt_lower then greeting_reply
         else if py_in ''what'' prompt_lower \<and> py_in ''name'' prompt_lower then name_reply rt model
         else if py_in ''code'' prompt_lower \<or> py_in ''python'' prompt_lower then code_reply
         else if py_in ''math'' prompt_lower \<or> py_in ''calculate'' prompt_lower then math_reply
         else if py_in ''story'' prompt_lower \<or> py_in ''tale'' prompt_lower then story_reply
         else fallback_reply rt prompt model)"

subsection \<open>Requests, responses and effects\<close>

text \<open>
  A request as the handler sees it: \<open>self.path\<close>, \<open>self.headers\<close> (a header that is
  absent reads as \<open>None\<close>) and the bytes that \<open>self.rfile\<close> delivers up to its end.
\<close>

record request =
  path :: string
  headers :: "string \<rightharpoonup> string"
  rfile :: bytes

record chat_message =
  role :: string
  content :: string

record chat_choice =
  index :: int
  message :: chat_message
  finish_reason :: string

record completion_usage =
  prompt_tokens :: int
  completion_tokens :: int
  total_tokens :: int

text \<open>The dictionary \<open>response\<close> built by the handler (key \<open>id\<close> is \<open>id_field\<close>).\<close>

record 'f completion_response =
  id_field :: string
  object :: string
  created :: int
  model :: "'f json"
  choices :: "chat_choice list"
  usage :: completion_usage

text \<open>
  The calls of the handler that act on the world: \<open>self.rfile.read(n)\<close>,
  \<open>logger.info(s)\<close>, \<open>logger.error(f"{s}{e}")\<close>, \<open>self.send_error(code, message)\<close>,
  \<open>self.send_response(code)\<close>, \<open>self.send_header(k, v)\<close>, \<open>self.end_headers()\<close> and
  \<open>self.wfile.write(json.dumps(response).encode('utf-8'))\<close>. \<open>Rfile_read n\<close> stands for
  a read that returned; a read that raises leaves no effect. The connection itself is taken
  not to fail, and writing to it to succeed. The lines that \<open>send_error\<close> and
  \<open>send_response\<close> of the library log through \<open>log_message\<close> are not calls of the
  handler and are not among the effects.
\<close>

datatype 'f effect =
    Rfile_read int
  | Log_info string
  | Log_error string exn
  | Send_error nat string
  | Send_response nat
  | Send_header string string
  | End_headers
  | Wfile_write "'f completion_response"

text \<open>What a run of the handler leaves: its effects, and the exception that escaped it.\<close>

type_synonym 'f outcome = "'f effect list \<times> exn option"

subsection \<open>Operations on parsed JSON\<close>

text \<open>\<open>d.get(key, default)\<close>; a value that is not a \<open>dict\<close> has no \<open>get\<close>.\<close>

definition py_get :: "'f json \<Rightarrow> string \<Rightarrow> 'f json \<Rightarrow> exn + 'f json" where
  "py_get d key dflt =
     (case d of
        JObj items \<Rightarrow> (case map_of items key of None \<Rightarrow> Inr dflt | Some v \<Rightarrow> Inr v)
      | _ \<Rightarrow> Inl AttributeError)"

text \<open>\<open>len(v)\<close>.\<close>

definition py_len :: "'f json \<Rightarrow> exn + nat" where
  "py_len v =
     (case v of
        JStr s \<Rightarrow> Inr (length s)
      | JArr xs \<Rightarrow> Inr (length xs)
      | JObj items \<Rightarrow> Inr (length items)
      | _ \<Rightarrow> Inl TypeError)"

text \<open>
  The elements \<open>for msg in v\<close> runs through: those of a list, the one-character strings
  of a string, the keys of a \<open>dict\<close>.
\<close>

definition py_iter :: "'f json \<Rightarrow> exn + 'f json list" where
  "py_iter v =
     (case v of
        JStr s \<Rightarrow> Inr (map (\<lambda>c. JStr [c]) s)
      | JArr xs \<Rightarrow> Inr xs
      | JObj items \<Rightarrow> Inr (map (\<lambda>kv. JStr (fst kv)) items)
      | _ \<Rightarrow> Inl TypeError)"

text \<open>
  The loop of \<open>do_POST\<close> that builds \<open>prompt_text\<close>. \<open>msg.get('role')\<close> defaults to
  \<open>None\<close>; \<open>prompt_text += v\<close> raises \<open>TypeError\<close> unless \<open>v\<close> is a string.
\<close>

fun concat_user :: "string \<Rightarrow> 'f json list \<Rightarrow> exn + string" where
  "concat_user prompt_text [] = Inr prompt_text"
| "concat_user prompt_text (msg # msgs) =
     (case py_get msg ''role'' JNull of
        Inl e \<Rightarrow> Inl e
      | Inr r \<Rightarrow>
          if r = JStr ''user'' then
            (case py_get msg ''content'' (JStr '''') of
               Inl e \<Rightarrow> Inl e
             | Inr (JStr s) \<Rightarrow> concat_user (prompt_text @ s) msgs
             | Inr _ \<Rightarrow> Inl TypeError)
          else concat_user prompt_text msgs)"

subsection \<open>\<open>do_POST\<close>\<close>

text \<open>\<open>int(self.headers['Content-Length'])\<close>: \<open>int(None)\<close> raises \<open>TypeError\<close>.\<close>

definition py_int :: "'f runtime \<Rightarrow> string option \<Rightarrow> exn + int" where
  "py_int rt v =
     (case v of
        None \<Rightarrow> Inl TypeError
      | Some s \<Rightarrow> (case int_of_str rt s of None \<Rightarrow> Inl ValueError | Some n \<Rightarrow> Inr n))"

text \<open>
  \<open>self.rfile.read(n)\<close> on the buffered reader of the connection. A length that does not
  fit a signed 64-bit integer raises \<open>OverflowError\<close>, a length below \<open>-1\<close> raises
  \<open>ValueError\<close>, \<open>-1\<close> reads all the bytes up to the end of the stream, and any other
  length reads at most that many bytes unless the buffer for them cannot be had.
\<close>

definition rfile_read :: "'f runtime \<Rightarrow> request \<Rightarrow> int \<Rightarrow> exn + bytes" where
  "rfile_read rt req n =
     (if n < - (2 ^ 63) \<or> 2 ^ 63 \<le> n then Inl OverflowError
      else if n < - 1 then Inl ValueError
      else if n = - 1 then Inr (rfile req)
      else case read_alloc rt n of
             Some e \<Rightarrow> Inl e
           | None \<Rightarrow> Inr (take (nat n) (rfile req)))"

text \<open>\<open>json.loads(post_data.decode('utf-8'))\<close>.\<close>

definition loads_body :: "'f runtime \<Rightarrow> bytes \<Rightarrow> exn + 'f json" where
  "loads_body rt post_data =
     (case utf8_decode rt post_data of Inl e \<Rightarrow> Inl e | Inr text \<Rightarrow> json_loads rt text)"

text \<open>The dictionary \<open>response\<close> and the token counts before it (lines 55 to 81).\<close>

definition build_response ::
    "'f runtime \<Rightarrow> 'f json \<Rightarrow> string \<Rightarrow> string \<Rightarrow> 'f completion_response" where
  "build_response rt model_v prompt_text mock_content =
     (let prompt_tokens_v =
            float_mul rt (float_of_int rt (int (length (split prompt_text))))
              (float_of_decimal rt (13 / 10));
          completion_tokens_v =
            float_mul rt (float_of_int rt (int (length (split mock_content))))
              (float_of_decimal rt (13 / 10));
          total_tokens_v = int_of_float rt (float_add rt prompt_tokens_v completion_tokens_v)
      in \<lparr>id_field = ''chatcmpl-'' @ str_int (int_of_float rt (time_time rt 0)),
          object = ''chat.completion'',
          created = int_of_float rt (time_time rt 1),
          model = model_v,
          choices =
            [\<lparr>index = 0,
              message = \<lparr>role = ''assistant'', content = mock_content\<rparr>,
              finish_reason = ''stop''\<rparr>],
          usage =
            \<lparr>prompt_tokens = int_of_float rt prompt_tokens_v,
             completion_tokens = int_of_float rt completion_tokens_v,
             total_tokens = total_tokens_v\<rparr>\<rparr>)"

text \<open>
  The body of the \<open>try\<close> block (lines 36 to 89), with the effects it has performed when it
  ends or raises.
\<close>

definition try_block :: "'f runtime \<Rightarrow> bytes \<Rightarrow> 'f outcome" where
  "try_block rt post_data =
     (case loads_body rt post_data of
        Inl e \<Rightarrow> ([], Some e)
      | Inr request_data \<Rightarrow>
     (case py_get request_data ''model'' (JStr ''unknown'') of
        Inl e \<Rightarrow> ([], Some e)
      | Inr logged_model \<Rightarrow>
     (let log1 = Log_info (''Received request for model: '' @ py_str rt logged_model) in
      case (case py_get request_data ''messages'' (JArr []) of
              Inl e \<Rightarrow> Inl e | Inr v \<Rightarrow> py_len v) of
        Inl e \<Rightarrow> ([log1], Some e)
      | Inr n \<Rightarrow>
     (let log2 = Log_info (''Prompt length: '' @ str_int (int n)) in
      case py_get request_data ''model'' (JStr ''gpt-3.5-turbo'') of
        Inl e \<Rightarrow> ([log1, log2], Some e)
      | Inr model_v \<Rightarrow>
     (case py_get request_data ''messages'' (JArr []) of
        Inl e \<Rightarrow> ([log1, log2], Some e)
      | Inr messages \<Rightarrow>
     (case py_get request_data ''max_tokens'' (JInt 150) of
        Inl e \<Rightarrow> ([log1, log2], Some e)
      | Inr max_tokens \<Rightarrow>
     (case py_get request_data ''temperature'' (JFloat (float_of_decimal rt (7 / 10))) of
        Inl e \<Rightarrow> ([log1, log2], Some e)
      | Inr temperature \<Rightarrow>
     (case (case py_iter messages of
              Inl e \<Rightarrow> Inl e | Inr msgs \<Rightarrow> concat_user '''' msgs) of
        Inl e \<Rightarrow> ([log1, log2], Some e)
      | Inr prompt_text \<Rightarrow>
     (let mock_content = generate_mock_response rt prompt_text model_v;
          response = build_response rt model_v prompt_text mock_content
      in ([log1, log2,
           Send_response 200,
           Send_header ''Content-Type'' ''application/json'',
           End_headers,
           Wfile_write response,
           Log_info (''Sent mock response with ''
                     @ str_int (total_tokens (usage response)) @ '' tokens'')],
          None))))))))))"

text \<open>
  The handler. \<open>urlparse\<close>, the conversion of the \<open>Content-Length\<close> header and the
  read of the body stand before the \<open>try\<close>; the two \<open>except\<close> clauses follow it.
\<close>

definition do_POST :: "'f runtime \<Rightarrow> request \<Rightarrow> 'f outcome" where
  "do_POST rt req =
     (case urlparse_path rt (path req) of
        Inl e \<Rightarrow> ([], Some e)
      | Inr parsed_path \<Rightarrow>
          if parsed_path \<noteq> ''/chat/completions''
          then ([Send_error 404 ''Not Found''], None)
          else
            case py_int rt (headers req ''Content-Length'') of
              Inl e \<Rightarrow> ([], Some e)
            | Inr content_length \<Rightarrow>
                (case rfile_read rt req content_length of
                   Inl e \<Rightarrow> ([], Some e)
                 | Inr post_data \<Rightarrow>
                     (case try_block rt post_data of
                        (effs, None) \<Rightarrow> (Rfile_read content_length # effs, None)
                      | (effs, Some e) \<Rightarrow>
                          if e = JSONDecodeError
                          then (Rfile_read content_length # effs
                                @ [Send_error 400 ''Invalid JSON''], None)
                          else (Rfile_read content_length # effs
                                @ [Log_error ''Error processing request: '' e,
                                   Send_error 500 ''Internal Server Error''], None))))"

text \<open>The response body a run has written, if any.\<close>

fun written :: "'f effect list \<Rightarrow> 'f completion_response option" where
  "written [] = None"
| "written (Wfile_write r # es) = Some r"
| "written (e # es) = written es"

subsection \<open>The request and the reply as the specification words them\<close>

text \<open>
  The value of \<open>request_data\<close> (lines 32 to 36): the header converted, the body read,
  decoded and parsed; \<open>Inl e\<close> where one of the four raises \<open>e\<close>.
\<close>

definition parsed_request :: "'f runtime \<Rightarrow> request \<Rightarrow> exn + 'f json" where
  "parsed_request rt req =
     (case py_int rt (headers req ''Content-Length'') of
        Inl e \<Rightarrow> Inl e
      | Inr content_length \<Rightarrow>
          (case rfile_read rt req content_length of
             Inl e \<Rightarrow> Inl e
           | Inr post_data \<Rightarrow> loads_body rt post_data))"

definition request_model :: "'f json \<Rightarrow> 'f json" where
  "request_model j =
     (case j of
        JObj items \<Rightarrow> (case map_of items ''model'' of Some m \<Rightarrow> m | None \<Rightarrow> JStr ''gpt-3.5-turbo'')
      | _ \<Rightarrow> JStr ''gpt-3.5-turbo'')"

definition request_messages :: "'f json \<Rightarrow> 'f json list" where
  "request_messages j =
     (case j of
        JObj items \<Rightarrow> (case map_of items ''messages'' of Some (JArr ms) \<Rightarrow> ms | _ \<Rightarrow> [])
      | _ \<Rightarrow> [])"

definition is_user_message :: "'f json \<Rightarrow> bool" where
  "is_user_message m =
     (case m of JObj items \<Rightarrow> map_of items ''role'' = Some (JStr ''user'') | _ \<Rightarrow> False)"

definition message_content :: "'f json \<Rightarrow> string" where
  "message_content m =
     (case m of
        JObj items \<Rightarrow> (case map_of items ''content'' of Some (JStr s) \<Rightarrow> s | _ \<Rightarrow> '''')
      | _ \<Rightarrow> '''')"

definition user_prompt :: "'f json \<Rightarrow> string" where
  "user_prompt j = concat (map message_content (filter is_user_message (request_messages j)))"

definition is_message :: "'f json \<Rightarrow> bool" where
  "is_message m =
     (case m of
        JObj items \<Rightarrow>
          (case map_of items ''role'' of Some (JStr r) \<Rightarrow> True | _ \<Rightarrow> False)
          \<and> (case map_of items ''content'' of Some (JStr c) \<Rightarrow> True | _ \<Rightarrow> False)
      | _ \<Rightarrow> False)"

definition request_conforms :: "'f json \<Rightarrow> bool" where
  "request_conforms j =
     (case j of
        JObj items \<Rightarrow>
          (case map_of items ''messages'' of
             None \<Rightarrow> True
           | Some (JArr ms) \<Rightarrow> list_all is_message ms
           | Some _ \<Rightarrow> False)
      | _ \<Rightarrow> False)"

definition ci_contains :: "string \<Rightarrow> string \<Rightarrow> bool" where
  "ci_contains keyword text = sublist (lower keyword) (lower text)"

definition spec_rules :: "'f runtime \<Rightarrow> string \<Rightarrow> 'f json \<Rightarrow> ((string \<Rightarrow> bool) \<times> string) list" where
  "spec_rules rt prompt model_v =
     [(\<lambda>t. ci_contains ''hello'' t \<or> ci_contains ''hi'' t, greeting_reply),
      (\<lambda>t. ci_contains ''what'' t \<and> ci_contains ''name'' t, name_reply rt model_v),
      (\<lambda>t. ci_contains ''code'' t \<or> ci_contains ''python'' t, code_reply),
      (\<lambda>t. ci_contains ''math'' t \<or> ci_contains ''calculate'' t, math_reply),
      (\<lambda>t. ci_contains ''story'' t \<or> ci_contains ''tale'' t, story_reply),
      (\<lambda>t. True, fallback_reply rt prompt model_v)]"

definition first_match :: "string \<Rightarrow> ((string \<Rightarrow> bool) \<times> string) list \<Rightarrow> string option" where
  "first_match text rules = map_option snd (find (\<lambda>rule. fst rule text) rules)"


text \<open>Some rule before the fallback applies to the text.\<close>

definition keyword_rule_matches :: "string \<Rightarrow> bool" where
  "keyword_rule_matches text =
     (ci_contains ''hello'' text \<or> ci_contains ''hi'' text
      \<or> (ci_contains ''what'' text \<and> ci_contains ''name'' text)
      \<or> ci_contains ''code'' text \<or> ci_contains ''python'' text
      \<or> ci_contains ''math'' text \<or> ci_contains ''calculate'' text
      \<or> ci_contains ''story'' text \<or> ci_contains ''tale'' text)"

text \<open>
  The fallback text with its three insertions: what is shown of the prompt, the model name
  and the time.
\<close>

definition echo_reply :: "string \<Rightarrow> string \<Rightarrow> string \<Rightarrow> string" where
  "echo_reply shown model_name now =
     ''This is a mock response generated by the test LLM server for the Crowd Models network.''
     @ [CHR 0x0A, CHR 0x0A]
     @ ''Your prompt was: '' @ [CHR 0x22] @ shown @ [CHR 0x22] @ [CHR 0x0A, CHR 0x0A]
     @ ''Model: '' @ model_name @ [CHR 0x0A]
     @ ''Time: '' @ now @ [CHR 0x0A, CHR 0x0A]
     @ ''This response is generated for testing purposes and demonstrates that the P2P network is functioning correctly.''"

definition is_dict :: "'f json \<Rightarrow> bool" where
  "is_dict v = (case v of JObj items \<Rightarrow> True | _ \<Rightarrow> False)"


text \<open>Token accounting as the specification words it.\<close>

definition word_count :: "string \<Rightarrow> nat" where
  "word_count text = length (split text)"

definition token_estimate :: "'f runtime \<Rightarrow> string \<Rightarrow> 'f" where
  "token_estimate rt text =
     float_mul rt (float_of_int rt (int (word_count text))) (float_of_decimal rt (13 / 10))"

subsection \<open>A concrete runtime and concrete requests\<close>

text \<open>
  The theorems below are instantiated at these inputs. \<open>demo_runtime\<close> computes with
  rational numbers in place of floats (on the values that occur here, \<open>int\<close> of the exact
  result is \<open>int\<close> of Python's float), and gives the library functions by tables that
  agree with Python on the inputs used here. Its clock advances a quarter of a second
  between two readings, and it has the buffer for any read below \<open>2^31\<close> bytes.
\<close>

definition demo_body :: bytes where
  \<open>demo_body = ''{"model":"test-model","messages":[{"role":"user","content":"hello there"}]}''\<close>

definition demo_json :: "rat json" where
  "demo_json =
     JObj [(''model'', JStr ''test-model''),
           (''messages'',
            JArr [JObj [(''role'', JStr ''user''), (''content'', JStr ''hello there'')]])]"

definition empty_messages_body :: bytes where
  \<open>empty_messages_body = ''{"messages":[]}''\<close>

definition string_message_body :: bytes where
  \<open>string_message_body = ''{"messages":["hi"]}''\<close>

definition mixed_body :: bytes where
  \<open>mixed_body = ''{"messages":[{"role":"user","content":"Hello, "},{"role":"system","content":"be brief"},{"role":"user","content":"write CODE"}]}''\<close>

definition mixed_json :: "rat json" where
  "mixed_json =
     JObj [(''messages'',
            JArr [JObj [(''role'', JStr ''user''), (''content'', JStr ''Hello, '')],
                  JObj [(''role'', JStr ''system''), (''content'', JStr ''be brief'')],
                  JObj [(''role'', JStr ''user''), (''content'', JStr ''write CODE'')]])]"

text \<open>A prompt of 101 characters, none of them part of a keyword.\<close>

definition long_prompt :: string where
  "long_prompt = replicate 101 CHR ''x''"

definition long_body :: bytes where
  \<open>long_body = ''{"messages":[{"role":"user","content":"'' @ long_prompt @ ''"}]}''\<close>

definition long_json :: "rat json" where
  "long_json =
     JObj [(''messages'',
            JArr [JObj [(''role'', JStr ''user''), (''content'', JStr long_prompt)]])]"

definition demo_runtime :: "rat runtime" where
  "demo_runtime =
     \<lparr>urlparse_path = (\<lambda>p. Inr p),
      int_of_str =
        map_of [(''75'', 75), (''2'', 2), (''1'', 1), (''8'', 8), (''15'', 15), (''19'', 19),
                (''128'', 128), (''144'', 144), (''-2'', - 2)],
      utf8_decode = (\<lambda>b. if CHR 0xFF \<in> set b then Inl UnicodeDecodeError else Inr b),
      json_loads =
        (\<lambda>s. if s = demo_body then Inr demo_json
             else if s = mixed_body then Inr mixed_json
             else if s = long_body then Inr long_json
             else if s = empty_messages_body then Inr (JObj [(''messages'', JArr [])])
             else if s = string_message_body then Inr (JObj [(''messages'', JArr [JStr ''hi''])])
             else if s = ''{}'' then Inr (JObj [])
             else if s = ''[]'' then Inr (JArr [])
             else Inl JSONDecodeError),
      str_of = (\<lambda>v. ''None''),
      strftime = (\<lambda>fmt. ''2024-01-02 03:04:05''),
      time_time = (\<lambda>k. 1000 + rat_of_nat k / 4),
      float_of_decimal = (\<lambda>q. q),
      float_of_int = rat_of_int,
      float_mul = (*),
      float_add = (+),
      int_of_float = (\<lambda>x. if 0 \<le> x then \<lfloor>x\<rfloor> else \<lceil>x\<rceil>),
      read_alloc = (\<lambda>n. if n < 2 ^ 31 then None else Some MemoryError)\<rparr>"

text \<open>The same runtime with a clock that passes a full second between the two readings.\<close>

definition tick_runtime :: "rat runtime" where
  "tick_runtime = demo_runtime\<lparr>time_time := (\<lambda>k. if k = 0 then 1999 / 2 else 1000)\<rparr>"

definition post :: "string \<Rightarrow> string \<Rightarrow> bytes \<Rightarrow> request" where
  "post p len body = \<lparr>path = p, headers = [''Content-Length'' \<mapsto> len], rfile = body\<rparr>"

definition post_without_length :: "string \<Rightarrow> bytes \<Rightarrow> request" where
  "post_without_length p body = \<lparr>path = p, headers = Map.empty, rfile = body\<rparr>"

definition demo_request :: request where
  "demo_request = post ''/chat/completions'' ''75'' demo_body"

definition demo_response :: "rat completion_response" where
  "demo_response =
     \<lparr>id_field = ''chatcmpl-1000'',
      object = ''chat.completion'',
      created = 1000,
      model = JStr ''test-model'',
      choices =
        [\<lparr>index = 0,
          message = \<lparr>role = ''assistant'', content = greeting_reply\<rparr>,
          finish_reason = ''stop''\<rparr>],
      usage = \<lparr>prompt_tokens = 2, completion_tokens = 24, total_tokens = 27\<rparr>\<rparr>"

section \<open>Properties\<close>

subsection \<open>Strings, the reply rules and the prompt loop\<close>

text \<open>
  The words of \<open>split\<close> are non-empty, hold no space, and together they are the
  characters of the text that are not spaces.
\<close>

lemma split_from_words:
  assumes "v \<in> set (split_from w s)" and "\<forall>c \<in> set w. \<not> isspace c"
  shows "v \<noteq> [] \<and> (\<forall>c \<in> set v. \<not> isspace c)"
  using assms
proof (induction s arbitrary: w)
  case Nil
  then show ?case by (auto split: if_splits)
next
  case (Cons c s)
  show ?case
  proof (cases "isspace c")
    case True
    with Cons.prems have "v = w \<and> w \<noteq> [] \<or> v \<in> set (split_from [] s)"
      by (auto split: if_splits)
    with Cons.IH [of "[]"] Cons.prems(2) show ?thesis
      by auto
  next
    case False
    with Cons.prems have "v \<in> set (split_from (w @ [c]) s)"
      by simp
    moreover from False Cons.prems(2) have "\<forall>c' \<in> set (w @ [c]). \<not> isspace c'"
      by auto
    ultimately show ?thesis
      by (rule Cons.IH)
  qed
qed

lemma split_words: "v \<in> set (split s) \<Longrightarrow> v \<noteq> [] \<and> (\<forall>c \<in> set v. \<not> isspace c)"
  using split_from_words [of v "[]" s] by (simp add: split_def)

lemma concat_split_from:
  "concat (split_from w s) = w @ filter (\<lambda>c. \<not> isspace c) s"
  by (induction s arbitrary: w) simp_all

lemma concat_split: "concat (split s) = filter (\<lambda>c. \<not> isspace c) s"
  by (simp add: split_def concat_split_from)

lemma py_in_sublist: "py_in needle hay = sublist needle hay"
  by (induction hay) (simp_all add: sublist_Cons_right)

lemma lower_keywords:
  "lower ''hello'' = ''hello''" "lower ''hi'' = ''hi''" "lower ''what'' = ''what''"
  "lower ''name'' = ''name''" "lower ''code'' = ''code''" "lower ''python'' = ''python''"
  "lower ''math'' = ''math''" "lower ''calculate'' = ''calculate''"
  "lower ''story'' = ''story''" "lower ''tale'' = ''tale''"
  by code_simp+

lemma generate_mock_response_first_match:
  "first_match prompt (spec_rules rt prompt model_v) = Some (generate_mock_response rt prompt model_v)"
  by (simp add: first_match_def spec_rules_def generate_mock_response_def ci_contains_def
      lower_keywords py_in_sublist Let_def)

lemma sublist_map_iff:
  "sublist ys (map f xs) \<longleftrightarrow> (\<exists>us. sublist us xs \<and> map f us = ys)"
proof
  assume "sublist ys (map f xs)"
  then obtain ps ss where "map f xs = ps @ ys @ ss"
    by (auto simp: sublist_def)
  then obtain a b c where "xs = a @ b @ c" "map f b = ys"
    by (metis map_eq_append_conv)
  then show "\<exists>us. sublist us xs \<and> map f us = ys"
    by (auto simp: sublist_def)
next
  assume "\<exists>us. sublist us xs \<and> map f us = ys"
  then obtain us ps ss where "xs = ps @ us @ ss" "map f us = ys"
    by (auto simp: sublist_def)
  then have "map f xs = map f ps @ ys @ map f ss"
    by simp
  then show "sublist ys (map f xs)"
    unfolding sublist_def by blast
qed

lemma ci_contains_iff:
  "ci_contains keyword text \<longleftrightarrow> (\<exists>u. sublist u text \<and> lower u = lower keyword)"
  unfolding ci_contains_def lower_def by (rule sublist_map_iff)

lemma greeting_first:
  "ci_contains ''hello'' prompt \<Longrightarrow> generate_mock_response rt prompt model_v = greeting_reply"
  by (simp add: generate_mock_response_def ci_contains_def lower_keywords py_in_sublist)

lemma fallback_last:
  "\<not> keyword_rule_matches prompt \<Longrightarrow>
     generate_mock_response rt prompt model_v = fallback_reply rt prompt model_v"
  by (auto simp: generate_mock_response_def keyword_rule_matches_def ci_contains_def
      lower_keywords py_in_sublist Let_def)

lemma fallback_reply_echo:
  "fallback_reply rt prompt model_v =
     echo_reply (take 100 prompt @ (if 100 < length prompt then ''...'' else ''''))
       (py_str rt model_v) (strftime rt ''%Y-%m-%d %H:%M:%S'')"
  by (simp add: fallback_reply_def echo_reply_def)

lemma empty_prompt_no_keyword: "\<not> keyword_rule_matches ''''"
  by code_simp

lemma concat_user_step:
  "concat_user p (m # ms) =
     (case m of
        JObj items \<Rightarrow>
          if map_of items ''role'' = Some (JStr ''user'') then
            (case map_of items ''content'' of
               None \<Rightarrow> concat_user p ms
             | Some (JStr s) \<Rightarrow> concat_user (p @ s) ms
             | Some _ \<Rightarrow> Inl TypeError)
          else concat_user p ms
      | _ \<Rightarrow> Inl AttributeError)"
  by (simp add: py_get_def split: json.split option.split)

lemma concat_user_Cons_Inr:
  assumes "concat_user p (m # ms) = Inr q"
  shows "concat_user (p @ (if is_user_message m then message_content m else [])) ms = Inr q"
  using assms
  by (cases m)
    (auto simp: concat_user_step is_user_message_def message_content_def
      simp del: concat_user.simps split: option.splits json.splits if_splits)

lemma concat_user_Inr:
  "concat_user p ms = Inr q \<Longrightarrow>
     q = p @ concat (map message_content (filter is_user_message ms))"
proof (induction ms arbitrary: p)
  case Nil
  then show ?case by simp
next
  case (Cons m ms)
  from Cons.IH [OF concat_user_Cons_Inr [OF Cons.prems]] show ?case
    by simp
qed

lemma concat_user_message:
  assumes "is_message m"
  shows "concat_user p (m # ms)
    = concat_user (p @ (if is_user_message m then message_content m else [])) ms"
  using assms
  by (cases m)
    (auto simp: concat_user_step is_message_def is_user_message_def message_content_def
      simp del: concat_user.simps split: option.splits json.splits)

lemma concat_user_messages:
  "list_all is_message ms \<Longrightarrow>
     concat_user p ms = Inr (p @ concat (map message_content (filter is_user_message ms)))"
proof (induction ms arbitrary: p)
  case Nil
  then show ?case by simp
next
  case (Cons m ms)
  then show ?case
    by (simp add: concat_user_message del: concat_user.simps)
qed

lemma concat_user_Cons_Inl:
  assumes "\<And>p'. \<exists>e. concat_user p' ms = Inl e"
  shows "\<exists>e. concat_user p (m # ms) = Inl e"
  using assms
  by (cases m)
    (auto simp: concat_user_step simp del: concat_user.simps split: option.splits json.splits)

lemma concat_user_not_dict:
  "\<exists>m \<in> set ms. \<not> is_dict m \<Longrightarrow> \<exists>e. concat_user p ms = Inl e"
proof (induction ms arbitrary: p)
  case Nil
  then show ?case by simp
next
  case (Cons m ms)
  show ?case
  proof (cases "is_dict m")
    case True
    with Cons.prems have "\<exists>m \<in> set ms. \<not> is_dict m"
      by auto
    then have "\<And>p'. \<exists>e. concat_user p' ms = Inl e"
      by (rule Cons.IH)
    then show ?thesis
      by (rule concat_user_Cons_Inl)
  next
    case False
    then show ?thesis
      by (cases m) (simp_all add: concat_user_step is_dict_def del: concat_user.simps)
  qed
qed

lemma concat_user_exn:
  "concat_user p ms = Inl e \<Longrightarrow> e = AttributeError \<or> e = TypeError"
proof (induction ms arbitrary: p)
  case Nil
  then show ?case by simp
next
  case (Cons m ms)
  then show ?case
    by (cases m)
      (auto simp: concat_user_step simp del: concat_user.simps
        split: option.splits json.splits if_splits)
qed

lemma py_iter_concat_user:
  assumes "py_iter v = Inr msgs" and "concat_user p msgs = Inr q"
  shows "q = p @ concat (map message_content (filter is_user_message
                (case v of JArr ms \<Rightarrow> ms | _ \<Rightarrow> [])))"
proof (cases v)
  case (JStr s)
  with assms show ?thesis
    by (cases s) (auto simp: py_iter_def py_get_def)
next
  case (JObj items)
  with assms show ?thesis
    by (cases items) (auto simp: py_iter_def py_get_def)
next
  case (JArr ms)
  with assms show ?thesis
    by (simp add: py_iter_def concat_user_Inr)
qed (use assms in \<open>simp_all add: py_iter_def\<close>)

subsection \<open>The try block\<close>

lemma py_get_dict:
  "py_get (JObj items) key dflt = Inr (case map_of items key of None \<Rightarrow> dflt | Some v \<Rightarrow> v)"
  by (simp add: py_get_def split: option.split)

lemma py_get_not_dict: "\<not> is_dict v \<Longrightarrow> py_get v key dflt = Inl AttributeError"
  by (cases v) (simp_all add: py_get_def is_dict_def)

lemma written_append_no_write:
  "written es' = None \<Longrightarrow> written (es @ es') = written es"
  by (induction es rule: written.induct) simp_all

lemma try_block_not_dict:
  "loads_body rt d = Inr j \<Longrightarrow> \<not> is_dict j \<Longrightarrow> try_block rt d = ([], Some AttributeError)"
  by (simp add: try_block_def py_get_not_dict)

lemma try_block_loads_raises:
  "loads_body rt d = Inl e \<Longrightarrow> try_block rt d = ([], Some e)"
  by (simp add: try_block_def)

lemma try_block_dict:
  assumes "loads_body rt d = Inr (JObj items)"
  shows "try_block rt d =
     (let log1 = Log_info (''Received request for model: ''
                   @ py_str rt (case map_of items ''model'' of None \<Rightarrow> JStr ''unknown'' | Some m \<Rightarrow> m));
          messages = (case map_of items ''messages'' of None \<Rightarrow> JArr [] | Some v \<Rightarrow> v);
          model_v = request_model (JObj items)
      in case py_len messages of
           Inl e \<Rightarrow> ([log1], Some e)
         | Inr n \<Rightarrow>
             (let log2 = Log_info (''Prompt length: '' @ str_int (int n))
              in case py_iter messages of
                   Inl e \<Rightarrow> ([log1, log2], Some e)
                 | Inr msgs \<Rightarrow>
                     (case concat_user '''' msgs of
                        Inl e \<Rightarrow> ([log1, log2], Some e)
                      | Inr prompt_text \<Rightarrow>
                          (let response = build_response rt model_v prompt_text
                                 (generate_mock_response rt prompt_text model_v)
                           in ([log1, log2, Send_response 200,
                                Send_header ''Content-Type'' ''application/json'',
                                End_headers, Wfile_write response,
                                Log_info (''Sent mock response with ''
                                   @ str_int (total_tokens (usage response)) @ '' tokens'')],
                               None)))))"
  using assms
  by (simp add: try_block_def py_get_dict request_model_def Let_def
      split: sum.split option.split)

lemma try_block_raises:
  assumes "try_block rt d = (effs, Some e)"
  shows "written effs = None"
    and "e = JSONDecodeError \<Longrightarrow> loads_body rt d = Inl JSONDecodeError \<and> effs = []"
proof -
  show "written effs = None"
  proof (cases "loads_body rt d")
    case (Inl e')
    with assms show ?thesis by (simp add: try_block_loads_raises)
  next
    case (Inr j)
    show ?thesis
    proof (cases j)
      case (JObj items)
      with Inr assms show ?thesis
        by (auto simp: try_block_dict Let_def split: sum.splits)
    qed (use Inr assms in \<open>auto simp: try_block_not_dict is_dict_def\<close>)
  qed
  show "loads_body rt d = Inl JSONDecodeError \<and> effs = []" if "e = JSONDecodeError"
  proof (cases "loads_body rt d")
    case (Inl e')
    with assms that show ?thesis by (simp add: try_block_loads_raises)
  next
    case (Inr j)
    show ?thesis
    proof (cases j)
      case (JObj items)
      with Inr assms that show ?thesis
        by (auto simp: try_block_dict Let_def py_len_def py_iter_def
            split: sum.splits json.splits option.splits dest: concat_user_exn)
    qed (use Inr assms that in \<open>auto simp: try_block_not_dict is_dict_def\<close>)
  qed
qed

lemma try_block_returns:
  assumes "try_block rt d = (effs, None)"
  shows "\<exists>j. loads_body rt d = Inr j \<and> is_dict j
           \<and> written effs = Some (build_response rt (request_model j) (user_prompt j)
                 (generate_mock_response rt (user_prompt j) (request_model j)))"
proof (cases "loads_body rt d")
  case (Inl e')
  with assms show ?thesis by (simp add: try_block_loads_raises)
next
  case (Inr j)
  show ?thesis
  proof (cases j)
    case (JObj items)
    with Inr assms show ?thesis
      by (auto simp: try_block_dict Let_def user_prompt_def request_messages_def is_dict_def
          split: sum.splits option.splits dest!: py_iter_concat_user)
  qed (use Inr assms in \<open>auto simp: try_block_not_dict is_dict_def\<close>)
qed

lemma try_block_conforms:
  assumes "loads_body rt d = Inr j" and "request_conforms j"
  shows "\<exists>effs. try_block rt d = (effs, None)"
proof (cases j)
  case (JObj items)
  with assms show ?thesis
    by (auto simp: try_block_dict Let_def request_conforms_def py_len_def py_iter_def
        concat_user_messages split: option.splits json.splits)
qed (use assms in \<open>simp_all add: request_conforms_def\<close>)

subsection \<open>The handler\<close>

lemma do_POST_try:
  assumes "urlparse_path rt (path req) = Inr ''/chat/completions''"
    and "py_int rt (headers req ''Content-Length'') = Inr n"
    and "rfile_read rt req n = Inr post_data"
  shows "do_POST rt req =
     (case try_block rt post_data of
        (effs, None) \<Rightarrow> (Rfile_read n # effs, None)
      | (effs, Some e) \<Rightarrow>
          if e = JSONDecodeError
          then (Rfile_read n # effs @ [Send_error 400 ''Invalid JSON''], None)
          else (Rfile_read n # effs
                @ [Log_error ''Error processing request: '' e,
                   Send_error 500 ''Internal Server Error''], None))"
  using assms by (simp add: do_POST_def)

lemma do_POST_read_raises:
  assumes "urlparse_path rt (path req) = Inr ''/chat/completions''"
    and "py_int rt (headers req ''Content-Length'') = Inr n"
    and "rfile_read rt req n = Inl e"
  shows "do_POST rt req = ([], Some e)"
  using assms by (simp add: do_POST_def)

lemma rfile_read_below_minus_one:
  "n < - 1 \<Longrightarrow> rfile_read rt req n = Inl (if n < - (2 ^ 63) then OverflowError else ValueError)"
  by (simp add: rfile_read_def)

lemma parsed_request_Inr:
  assumes "parsed_request rt req = Inr j"
  obtains n post_data where "py_int rt (headers req ''Content-Length'') = Inr n"
    and "rfile_read rt req n = Inr post_data"
    and "loads_body rt post_data = Inr j"
  using assms by (auto simp: parsed_request_def split: sum.splits)

lemma do_POST_written:
  assumes "urlparse_path rt (path req) = Inr ''/chat/completions''"
    and "parsed_request rt req = Inr j"
    and "written (fst (do_POST rt req)) = Some resp"
  shows "resp = build_response rt (request_model j) (user_prompt j)
                  (generate_mock_response rt (user_prompt j) (request_model j))"
proof -
  from assms(2) obtain n post_data
    where n: "py_int rt (headers req ''Content-Length'') = Inr n"
      and d: "rfile_read rt req n = Inr post_data"
      and j: "loads_body rt post_data = Inr j"
    by (rule parsed_request_Inr)
  note run = do_POST_try [OF assms(1) n d]
  obtain effs r where tb: "try_block rt post_data = (effs, r)"
    by (cases "try_block rt post_data")
  show ?thesis
  proof (cases r)
    case None
    with tb try_block_returns [of rt post_data effs] j assms(3) show ?thesis
      by (auto simp: run)
  next
    case (Some e)
    with tb have "written effs = None"
      by (auto dest: try_block_raises(1))
    with tb Some assms(3) show ?thesis
      by (auto simp: run written_append_no_write split: if_splits)
  qed
qed

lemma do_POST_conforms:
  assumes "urlparse_path rt (path req) = Inr ''/chat/completions''"
    and "parsed_request rt req = Inr j"
    and "request_conforms j"
  shows "\<exists>effs resp. do_POST rt req = (effs, None) \<and> written effs = Some resp"
proof -
  from assms(2) obtain n post_data
    where n: "py_int rt (headers req ''Content-Length'') = Inr n"
      and d: "rfile_read rt req n = Inr post_data"
      and j: "loads_body rt post_data = Inr j"
    by (rule parsed_request_Inr)
  from try_block_conforms [OF j assms(3)] obtain effs
    where tb: "try_block rt post_data = (effs, None)"
    by blast
  from try_block_returns [OF tb] obtain resp where "written effs = Some resp"
    by blast
  with tb show ?thesis
    by (simp add: do_POST_try [OF assms(1) n d])
qed

lemma do_POST_written_parsed:
  assumes "written (fst (do_POST rt req)) = Some resp"
  shows "urlparse_path rt (path req) = Inr ''/chat/completions''"
    and "\<exists>j. parsed_request rt req = Inr j"
proof -
  show p: "urlparse_path rt (path req) = Inr ''/chat/completions''"
    using assms by (auto simp: do_POST_def split: if_splits sum.splits)
  obtain n where n: "py_int rt (headers req ''Content-Length'') = Inr n"
    using assms p by (cases "py_int rt (headers req ''Content-Length'')") (auto simp: do_POST_def)
  obtain post_data where d: "rfile_read rt req n = Inr post_data"
    using assms p n by (cases "rfile_read rt req n") (auto simp: do_POST_def)
  note run = do_POST_try [OF p n d]
  obtain effs r where tb: "try_block rt post_data = (effs, r)"
    by (cases "try_block rt post_data")
  show "\<exists>j. parsed_request rt req = Inr j"
  proof (cases r)
    case None
    with tb try_block_returns [of rt post_data effs] n d show ?thesis
      by (auto simp: parsed_request_def)
  next
    case (Some e)
    with tb have "written effs = None"
      by (auto dest: try_block_raises(1))
    with tb Some assms show ?thesis
      by (auto simp: run written_append_no_write split: if_splits)
  qed
qed

lemma build_response_fields:
  "id_field (build_response rt m p c) = ''chatcmpl-'' @ str_int (int_of_float rt (time_time rt 0))"
  "created (build_response rt m p c) = int_of_float rt (time_time rt 1)"
  "model (build_response rt m p c) = m"
  "choices (build_response rt m p c)
     = [\<lparr>index = 0, message = \<lparr>role = ''assistant'', content = c\<rparr>, finish_reason = ''stop''\<rparr>]"
  "prompt_tokens (usage (build_response rt m p c)) = int_of_float rt (token_estimate rt p)"
  "completion_tokens (usage (build_response rt m p c)) = int_of_float rt (token_estimate rt c)"
  "total_tokens (usage (build_response rt m p c))
     = int_of_float rt (float_add rt (token_estimate rt p) (token_estimate rt c))"
  by (simp_all add: build_response_def token_estimate_def word_count_def Let_def)

subsection \<open>The handler on the concrete requests\<close>

lemmas demo_bodies =
  demo_body_def mixed_body_def long_body_def empty_messages_body_def string_message_body_def

lemma demo_path: "urlparse_path demo_runtime (path demo_request) = Inr ''/chat/completions''"
  by (simp add: demo_runtime_def demo_request_def post_def)

lemma demo_content_length:
  "py_int demo_runtime (headers demo_request ''Content-Length'') = Inr 75"
  by (simp add: py_int_def demo_runtime_def demo_request_def post_def)

lemma demo_post_data: "rfile_read demo_runtime demo_request 75 = Inr demo_body"
  by (simp add: rfile_read_def demo_runtime_def demo_request_def post_def demo_body_def)

lemma demo_loads: "loads_body demo_runtime demo_body = Inr demo_json"
  by (simp add: loads_body_def demo_runtime_def demo_bodies)

lemma demo_parsed: "parsed_request demo_runtime demo_request = Inr demo_json"
  by (simp add: parsed_request_def demo_content_length demo_post_data demo_loads)

lemma demo_conforms: "request_conforms demo_json"
  by (simp add: request_conforms_def demo_json_def is_message_def)

lemma demo_user_prompt: "user_prompt demo_json = ''hello there''"
  by (simp add: user_prompt_def request_messages_def demo_json_def is_user_message_def
      message_content_def)

lemma demo_run:
  "do_POST demo_runtime demo_request =
     ([Rfile_read 75,
       Log_info ''Received request for model: test-model'',
       Log_info ''Prompt length: 1'',
       Send_response 200,
       Send_header ''Content-Type'' ''application/json'',
       End_headers,
       Wfile_write demo_response,
       Log_info ''Sent mock response with 27 tokens''], None)"
  by code_simp

lemma demo_written: "written (fst (do_POST demo_runtime demo_request)) = Some demo_response"
  by (simp add: demo_run)

lemma demo_token_estimates:
  "token_estimate demo_runtime ''hello there'' = 13 / 5"
  "token_estimate demo_runtime greeting_reply = 247 / 10"
  by code_simp+

lemma demo_clock:
  "int_of_float demo_runtime (time_time demo_runtime 0) = 1000"
  "int_of_float demo_runtime (time_time demo_runtime (Suc 0)) = 1000"
  by code_simp+

lemma mixed_parsed:
  "urlparse_path demo_runtime (path (post ''/chat/completions'' ''128'' mixed_body))
     = Inr ''/chat/completions''"
  "parsed_request demo_runtime (post ''/chat/completions'' ''128'' mixed_body) = Inr mixed_json"
  by (simp_all add: parsed_request_def py_int_def demo_runtime_def post_def rfile_read_def
      loads_body_def demo_bodies)

lemma mixed_user_prompt: "user_prompt mixed_json = ''Hello, write CODE''"
  by (simp add: user_prompt_def request_messages_def mixed_json_def is_user_message_def
      message_content_def)

lemma mixed_keywords:
  "ci_contains ''hello'' ''Hello, write CODE''" "ci_contains ''code'' ''Hello, write CODE''"
  by code_simp+

lemma mixed_written:
  "map_option (\<lambda>resp. map (\<lambda>c. content (message c)) (choices resp))
     (written (fst (do_POST demo_runtime (post ''/chat/completions'' ''128'' mixed_body))))
     = Some [greeting_reply]"
  by code_simp

lemma empty_object_parsed:
  "urlparse_path demo_runtime (path (post ''/chat/completions'' ''2'' ''{}''))
     = Inr ''/chat/completions''"
  "parsed_request demo_runtime (post ''/chat/completions'' ''2'' ''{}'') = Inr (JObj [])"
  by (simp_all add: parsed_request_def py_int_def demo_runtime_def post_def rfile_read_def
      loads_body_def demo_bodies)

lemma empty_messages_parsed:
  "urlparse_path demo_runtime (path (post ''/chat/completions'' ''15'' empty_messages_body))
     = Inr ''/chat/completions''"
  "parsed_request demo_runtime (post ''/chat/completions'' ''15'' empty_messages_body)
     = Inr (JObj [(''messages'', JArr [])])"
  by (simp_all add: parsed_request_def py_int_def demo_runtime_def post_def rfile_read_def
      loads_body_def demo_bodies)

lemma string_message_parsed:
  "py_int demo_runtime
     (headers (post ''/chat/completions'' ''19'' string_message_body) ''Content-Length'') = Inr 19"
  "rfile_read demo_runtime (post ''/chat/completions'' ''19'' string_message_body) 19
     = Inr string_message_body"
  "loads_body demo_runtime string_message_body = Inr (JObj [(''messages'', JArr [JStr ''hi''])])"
  by (simp_all add: py_int_def demo_runtime_def post_def rfile_read_def loads_body_def
      demo_bodies)

lemma long_parsed:
  "urlparse_path demo_runtime (path (post ''/chat/completions'' ''144'' long_body))
     = Inr ''/chat/completions''"
  "parsed_request demo_runtime (post ''/chat/completions'' ''144'' long_body) = Inr long_json"
  by code_simp+

lemma long_user_prompt: "user_prompt long_json = long_prompt"
  by (simp add: user_prompt_def request_messages_def long_json_def is_user_message_def
      message_content_def)

lemma long_prompt_shown:
  "length long_prompt = 101"
  "take 100 long_prompt = replicate 100 CHR ''x''"
  "\<not> keyword_rule_matches long_prompt"
  by code_simp+

lemma long_written:
  "map_option (\<lambda>resp. map (\<lambda>c. content (message c)) (choices resp))
     (written (fst (do_POST demo_runtime (post ''/chat/completions'' ''144'' long_body))))
     = Some [echo_reply (replicate 100 CHR ''x'' @ ''...'') ''gpt-3.5-turbo''
               ''2024-01-02 03:04:05'']"
  by code_simp

lemma negative_length_run:
  "do_POST demo_runtime (post ''/chat/completions'' ''-2'' demo_body) = ([], Some ValueError)"
  by code_simp


lemma fallback_truncates:
  "generate_mock_response demo_runtime (replicate 101 CHR ''x'') (JStr ''m'')
     = echo_reply (replicate 100 CHR ''x'' @ ''...'') ''m'' ''2024-01-02 03:04:05''"
  "generate_mock_response demo_runtime (replicate 100 CHR ''x'') (JStr ''m'')
     = echo_reply (replicate 100 CHR ''x'') ''m'' ''2024-01-02 03:04:05''"
  by code_simp+

section \<open>The claims\<close>

text \<open>
  C1. The reply of a request is the reply of the first rule, in the order of the
  specification, whose keywords occur in the concatenation of the contents of the
  messages of role \<open>user\<close>, letter case ignored; a prompt with both \<open>hello\<close> and
  \<open>code\<close> gets the greeting. A request that conforms to CompletionRequest gets a reply.
\<close>

theorem reply_selection:
  assumes "urlparse_path rt (path req) = Inr ''/chat/completions''"
    and "parsed_request rt req = Inr j"
  shows "(request_conforms j \<longrightarrow> written (fst (do_POST rt req)) \<noteq> None)
       \<and> (\<forall>resp. written (fst (do_POST rt req)) = Some resp \<longrightarrow>
            (\<exists>c. choices resp = [c]
               \<and> first_match (user_prompt j) (spec_rules rt (user_prompt j) (request_model j))
                   = Some (content (message c))
               \<and> (ci_contains ''hello'' (user_prompt j) \<and> ci_contains ''code'' (user_prompt j)
                    \<longrightarrow> content (message c) = greeting_reply)))"
proof (intro conjI allI impI)
  assume "request_conforms j"
  from do_POST_conforms [OF assms this] show "written (fst (do_POST rt req)) \<noteq> None"
    by auto
next
  fix resp
  assume "written (fst (do_POST rt req)) = Some resp"
  from do_POST_written [OF assms this]
  show "\<exists>c. choices resp = [c]
          \<and> first_match (user_prompt j) (spec_rules rt (user_prompt j) (request_model j))
              = Some (content (message c))
          \<and> (ci_contains ''hello'' (user_prompt j) \<and> ci_contains ''code'' (user_prompt j)
               \<longrightarrow> content (message c) = greeting_reply)"
    by (simp add: build_response_fields generate_mock_response_first_match greeting_first)
qed

theorem reply_selection_witness:
  "urlparse_path demo_runtime (path (post ''/chat/completions'' ''128'' mixed_body))
     = Inr ''/chat/completions''
   \<and> parsed_request demo_runtime (post ''/chat/completions'' ''128'' mixed_body) = Inr mixed_json
   \<and> request_conforms mixed_json
   \<and> user_prompt mixed_json = ''Hello, write CODE''
   \<and> (\<exists>resp c. written (fst (do_POST demo_runtime (post ''/chat/completions'' ''128'' mixed_body)))
                  = Some resp
         \<and> choices resp = [c]
         \<and> first_match ''Hello, write CODE''
              (spec_rules demo_runtime ''Hello, write CODE'' (request_model mixed_json))
             = Some (content (message c))
         \<and> content (message c) = greeting_reply)"
proof -
  have c: "request_conforms mixed_json"
    by (simp add: request_conforms_def mixed_json_def is_message_def)
  from reply_selection [OF mixed_parsed] c mixed_keywords
  show ?thesis
    by (auto simp: mixed_parsed mixed_user_prompt)
qed

text \<open>
  C2. In the response of a successful request, \<open>prompt_tokens\<close> is \<open>int\<close> of the word
  count of the prompt times 1.3, \<open>completion_tokens\<close> is \<open>int\<close> of the word count of
  the reply times 1.3, and \<open>total_tokens\<close> is \<open>int\<close> of the sum of the two products,
  neither of them rounded before the addition. The word count is the number of
  whitespace-delimited words.
\<close>

theorem usage_token_counts:
  assumes "urlparse_path rt (path req) = Inr ''/chat/completions''"
    and "parsed_request rt req = Inr j"
    and "written (fst (do_POST rt req)) = Some resp"
  shows "\<exists>c. choices resp = [c]
           \<and> prompt_tokens (usage resp) = int_of_float rt (token_estimate rt (user_prompt j))
           \<and> completion_tokens (usage resp)
               = int_of_float rt (token_estimate rt (content (message c)))
           \<and> total_tokens (usage resp)
               = int_of_float rt (float_add rt (token_estimate rt (user_prompt j))
                                     (token_estimate rt (content (message c))))"
  using do_POST_written [OF assms] by (simp add: build_response_fields)

theorem usage_token_counts_witness:
  "urlparse_path demo_runtime (path demo_request) = Inr ''/chat/completions''
   \<and> parsed_request demo_runtime demo_request = Inr demo_json
   \<and> written (fst (do_POST demo_runtime demo_request)) = Some demo_response
   \<and> prompt_tokens (usage demo_response) = int_of_float demo_runtime (13 / 5)
   \<and> completion_tokens (usage demo_response) = int_of_float demo_runtime (247 / 10)
   \<and> total_tokens (usage demo_response) = int_of_float demo_runtime (13 / 5 + 247 / 10)
   \<and> usage demo_response = \<lparr>prompt_tokens = 2, completion_tokens = 24, total_tokens = 27\<rparr>"
proof -
  have f: "float_add demo_runtime = (+)"
    by (simp add: demo_runtime_def)
  from usage_token_counts [OF demo_path demo_parsed demo_written]
  show ?thesis
    by (auto simp: demo_path demo_parsed demo_written demo_user_prompt demo_token_estimates f
        demo_response_def)
qed

text \<open>
  C3. The \<open>model\<close> of a response is the \<open>model\<close> of the request, or
  \<open>gpt-3.5-turbo\<close> when the request has none; a request that conforms to
  CompletionRequest has a response.
\<close>

theorem model_echoed:
  assumes "urlparse_path rt (path req) = Inr ''/chat/completions''"
    and "parsed_request rt req = Inr j"
  shows "(request_conforms j \<longrightarrow> written (fst (do_POST rt req)) \<noteq> None)
       \<and> (\<forall>resp. written (fst (do_POST rt req)) = Some resp \<longrightarrow> model resp = request_model j)"
proof (intro conjI allI impI)
  assume "request_conforms j"
  from do_POST_conforms [OF assms this] show "written (fst (do_POST rt req)) \<noteq> None"
    by auto
next
  fix resp
  assume "written (fst (do_POST rt req)) = Some resp"
  from do_POST_written [OF assms this] show "model resp = request_model j"
    by (simp add: build_response_fields)
qed

theorem model_echoed_witness:
  "urlparse_path demo_runtime (path demo_request) = Inr ''/chat/completions''
   \<and> parsed_request demo_runtime demo_request = Inr demo_json
   \<and> request_conforms demo_json
   \<and> written (fst (do_POST demo_runtime demo_request)) = Some demo_response
   \<and> model demo_response = request_model demo_json
   \<and> request_model demo_json = JStr ''test-model''
   \<and> parsed_request demo_runtime (post ''/chat/completions'' ''2'' ''{}'') = Inr (JObj [])
   \<and> (\<exists>resp. written (fst (do_POST demo_runtime (post ''/chat/completions'' ''2'' ''{}'')))
                = Some resp
         \<and> model resp = JStr ''gpt-3.5-turbo'')"
proof -
  have c: "request_conforms (JObj [] :: rat json)"
    by (simp add: request_conforms_def)
  have m: "request_model demo_json = JStr ''test-model''"
    "request_model (JObj [] :: rat json) = JStr ''gpt-3.5-turbo''"
    by (simp_all add: request_model_def demo_json_def)
  from model_echoed [OF demo_path demo_parsed] model_echoed [OF empty_object_parsed] c m
  show ?thesis
    by (auto simp: demo_path demo_parsed demo_written demo_conforms empty_object_parsed)
qed

text \<open>
  C4. When no keyword rule applies to the prompt, the reply is the fallback text with three
  insertions: the first 100 characters of the prompt, followed by \<open>...\<close> exactly when the
  prompt is longer than 100 characters; the model; and the result of
  \<open>time.strftime('%Y-%m-%d %H:%M:%S')\<close>. A request whose \<open>messages\<close> is the empty list
  has a response, which echoes the empty prompt without an ellipsis.
\<close>

theorem fallback_echo:
  assumes "urlparse_path rt (path req) = Inr ''/chat/completions''"
    and "parsed_request rt req = Inr j"
  shows "(\<forall>resp. written (fst (do_POST rt req)) = Some resp
             \<and> \<not> keyword_rule_matches (user_prompt j) \<longrightarrow>
            (\<exists>c. choices resp = [c]
               \<and> content (message c)
                   = echo_reply
                       (take 100 (user_prompt j)
                        @ (if 100 < length (user_prompt j) then ''...'' else ''''))
                       (py_str rt (request_model j))
                       (strftime rt ''%Y-%m-%d %H:%M:%S'')))
       \<and> (\<forall>items. j = JObj items \<and> map_of items ''messages'' = Some (JArr []) \<longrightarrow>
            (\<exists>resp c. written (fst (do_POST rt req)) = Some resp
               \<and> choices resp = [c]
               \<and> content (message c)
                   = echo_reply '''' (py_str rt (request_model j))
                       (strftime rt ''%Y-%m-%d %H:%M:%S'')))"
proof (intro conjI allI impI)
  fix resp
  assume "written (fst (do_POST rt req)) = Some resp \<and> \<not> keyword_rule_matches (user_prompt j)"
  then have w: "written (fst (do_POST rt req)) = Some resp"
    and k: "\<not> keyword_rule_matches (user_prompt j)"
    by simp_all
  from do_POST_written [OF assms w] k
  show "\<exists>c. choices resp = [c]
          \<and> content (message c)
              = echo_reply
                  (take 100 (user_prompt j)
                   @ (if 100 < length (user_prompt j) then ''...'' else ''''))
                  (py_str rt (request_model j))
                  (strftime rt ''%Y-%m-%d %H:%M:%S'')"
    by (simp add: build_response_fields fallback_last fallback_reply_echo)
next
  fix items
  assume "j = JObj items \<and> map_of items ''messages'' = Some (JArr [])"
  then have j: "j = JObj items" and m: "map_of items ''messages'' = Some (JArr [])"
    by simp_all
  from j m have c: "request_conforms j"
    by (simp add: request_conforms_def)
  from j m have u: "user_prompt j = ''''"
    by (simp add: user_prompt_def request_messages_def)
  from do_POST_conforms [OF assms c] obtain resp
    where w: "written (fst (do_POST rt req)) = Some resp"
    by auto
  from do_POST_written [OF assms w] u empty_prompt_no_keyword
  have "choices resp
          = [\<lparr>index = 0,
              message = \<lparr>role = ''assistant'',
                         content = echo_reply '''' (py_str rt (request_model j))
                                     (strftime rt ''%Y-%m-%d %H:%M:%S'')\<rparr>,
              finish_reason = ''stop''\<rparr>]"
    by (simp add: build_response_fields fallback_last fallback_reply_echo)
  with w show "\<exists>resp c. written (fst (do_POST rt req)) = Some resp
               \<and> choices resp = [c]
               \<and> content (message c)
                   = echo_reply '''' (py_str rt (request_model j))
                       (strftime rt ''%Y-%m-%d %H:%M:%S'')"
    by simp
qed

theorem fallback_echo_witness:
  "urlparse_path demo_runtime (path (post ''/chat/completions'' ''15'' empty_messages_body))
     = Inr ''/chat/completions''
   \<and> parsed_request demo_runtime (post ''/chat/completions'' ''15'' empty_messages_body)
       = Inr (JObj [(''messages'', JArr [])])
   \<and> map_of [(''messages'', JArr [])] ''messages'' = Some (JArr [] :: rat json)
   \<and> \<not> keyword_rule_matches (user_prompt (JObj [(''messages'', JArr [])] :: rat json))
   \<and> (\<exists>resp c. written (fst (do_POST demo_runtime
                                (post ''/chat/completions'' ''15'' empty_messages_body)))
                  = Some resp
         \<and> choices resp = [c]
         \<and> content (message c) = echo_reply '''' ''gpt-3.5-turbo'' ''2024-01-02 03:04:05'')
   \<and> urlparse_path demo_runtime (path (post ''/chat/completions'' ''144'' long_body))
       = Inr ''/chat/completions''
   \<and> parsed_request demo_runtime (post ''/chat/completions'' ''144'' long_body) = Inr long_json
   \<and> user_prompt long_json = long_prompt
   \<and> length long_prompt = 101
   \<and> \<not> keyword_rule_matches long_prompt
   \<and> (\<exists>resp c. written (fst (do_POST demo_runtime (post ''/chat/completions'' ''144'' long_body)))
                  = Some resp
         \<and> choices resp = [c]
         \<and> content (message c)
             = echo_reply (replicate 100 CHR ''x'' @ ''...'') ''gpt-3.5-turbo''
                 ''2024-01-02 03:04:05'')"
proof -
  have u: "user_prompt (JObj [(''messages'', JArr [])] :: rat json) = ''''"
    by (simp add: user_prompt_def request_messages_def)
  have m: "py_str demo_runtime (request_model (JObj [(''messages'', JArr [])])) = ''gpt-3.5-turbo''"
    "py_str demo_runtime (request_model long_json) = ''gpt-3.5-turbo''"
    "strftime demo_runtime ''%Y-%m-%d %H:%M:%S'' = ''2024-01-02 03:04:05''"
    by (simp_all add: py_str_def request_model_def demo_runtime_def long_json_def)
  from fallback_echo [OF empty_messages_parsed] m
  have e: "\<exists>resp c. written (fst (do_POST demo_runtime
                                (post ''/chat/completions'' ''15'' empty_messages_body)))
                  = Some resp
         \<and> choices resp = [c]
         \<and> content (message c) = echo_reply '''' ''gpt-3.5-turbo'' ''2024-01-02 03:04:05''"
    by simp
  have "request_conforms long_json"
    by (simp add: request_conforms_def long_json_def is_message_def)
  from do_POST_conforms [OF long_parsed this] obtain resp
    where w: "written (fst (do_POST demo_runtime (post ''/chat/completions'' ''144'' long_body)))
                = Some resp"
    by auto
  from fallback_echo [OF long_parsed] w long_prompt_shown(3)
  have "\<exists>c. choices resp = [c]
          \<and> content (message c)
              = echo_reply
                  (take 100 (user_prompt long_json)
                   @ (if 100 < length (user_prompt long_json) then ''...'' else ''''))
                  (py_str demo_runtime (request_model long_json))
                  (strftime demo_runtime ''%Y-%m-%d %H:%M:%S'')"
    by (simp add: long_user_prompt)
  then have "\<exists>c. choices resp = [c]
          \<and> content (message c)
              = echo_reply (replicate 100 CHR ''x'' @ ''...'') ''gpt-3.5-turbo''
                  ''2024-01-02 03:04:05''"
    by (simp add: long_user_prompt long_prompt_shown m)
  with w have l: "\<exists>resp c.
         written (fst (do_POST demo_runtime (post ''/chat/completions'' ''144'' long_body)))
           = Some resp
         \<and> choices resp = [c]
         \<and> content (message c)
             = echo_reply (replicate 100 CHR ''x'' @ ''...'') ''gpt-3.5-turbo''
                 ''2024-01-02 03:04:05''"
    by blast
  from u empty_prompt_no_keyword e l show ?thesis
    by (simp add: empty_messages_parsed long_parsed long_user_prompt long_prompt_shown)
qed

text \<open>
  C5, as amended. In the response of a successful request, \<open>id\<close> is \<open>chatcmpl-\<close>
  followed by the decimal digits of \<open>int\<close> of a first reading of \<open>time.time()\<close>, and
  \<open>created\<close> is \<open>int\<close> of a second reading; the number in \<open>id\<close> is \<open>created\<close> when
  the two readings fall in the same second.
\<close>

theorem id_and_created:
  assumes "written (fst (do_POST rt req)) = Some resp"
  shows "id_field resp = ''chatcmpl-'' @ str_int (int_of_float rt (time_time rt 0))
       \<and> created resp = int_of_float rt (time_time rt 1)
       \<and> (int_of_float rt (time_time rt 0) = int_of_float rt (time_time rt 1)
            \<longrightarrow> id_field resp = ''chatcmpl-'' @ str_int (created resp))"
proof -
  from do_POST_written_parsed [OF assms] obtain j
    where "urlparse_path rt (path req) = Inr ''/chat/completions''"
      and "parsed_request rt req = Inr j"
    by blast
  from do_POST_written [OF this assms] show ?thesis
    by (simp add: build_response_fields)
qed

theorem id_and_created_witness:
  "written (fst (do_POST demo_runtime demo_request)) = Some demo_response
   \<and> int_of_float demo_runtime (time_time demo_runtime 0)
       = int_of_float demo_runtime (time_time demo_runtime 1)
   \<and> id_field demo_response = ''chatcmpl-'' @ str_int 1000
   \<and> created demo_response = 1000
   \<and> id_field demo_response = ''chatcmpl-'' @ str_int (created demo_response)"
  using id_and_created [OF demo_written] by (simp add: demo_written demo_clock)

text \<open>
  Against C5 as stated: the clock reads 999.5 for \<open>id\<close> and 1000.0 for \<open>created\<close>, and
  the number in \<open>id\<close> is not \<open>created\<close>.
\<close>

theorem id_and_created_counterexample:
  "map_option (\<lambda>resp. (id_field resp, created resp,
                        id_field resp = ''chatcmpl-'' @ str_int (created resp)))
     (written (fst (do_POST tick_runtime demo_request)))
     = Some (''chatcmpl-999'', 1000, False)"
  by code_simp




text \<open>
  C7, as amended. When the \<open>Content-Length\<close> header converts to an integer, the read of
  that many bytes returns and the bytes read decode as UTF-8, a text that \<open>json.loads\<close>
  rejects with \<open>JSONDecodeError\<close> is answered with \<open>send_error(400, "Invalid JSON")\<close>,
  and the handler does nothing else: it calls neither the logger nor \<open>wfile.write\<close>.
\<close>

theorem invalid_json_400:
  assumes "urlparse_path rt (path req) = Inr ''/chat/completions''"
    and "py_int rt (headers req ''Content-Length'') = Inr n"
    and "rfile_read rt req n = Inr post_data"
    and "utf8_decode rt post_data = Inr text"
    and "json_loads rt text = Inl JSONDecodeError"
  shows "do_POST rt req = ([Rfile_read n, Send_error 400 ''Invalid JSON''], None)"
  using assms(4,5)
  by (simp add: do_POST_try [OF assms(1-3)] try_block_loads_raises loads_body_def)

theorem invalid_json_400_witness:
  "urlparse_path demo_runtime (path (post ''/chat/completions'' ''8'' ''not-json''))
     = Inr ''/chat/completions''
   \<and> py_int demo_runtime
        (headers (post ''/chat/completions'' ''8'' ''not-json'') ''Content-Length'') = Inr 8
   \<and> rfile_read demo_runtime (post ''/chat/completions'' ''8'' ''not-json'') 8
       = Inr ''not-json''
   \<and> utf8_decode demo_runtime ''not-json'' = Inr ''not-json''
   \<and> json_loads demo_runtime ''not-json'' = Inl JSONDecodeError
   \<and> do_POST demo_runtime (post ''/chat/completions'' ''8'' ''not-json'')
       = ([Rfile_read 8, Send_error 400 ''Invalid JSON''], None)"
proof -
  have p: "urlparse_path demo_runtime (path (post ''/chat/completions'' ''8'' ''not-json''))
     = Inr ''/chat/completions''"
    by (simp add: demo_runtime_def post_def)
  have n: "py_int demo_runtime
        (headers (post ''/chat/completions'' ''8'' ''not-json'') ''Content-Length'') = Inr 8"
    by (simp add: py_int_def demo_runtime_def post_def)
  have r: "rfile_read demo_runtime (post ''/chat/completions'' ''8'' ''not-json'') 8
       = Inr ''not-json''"
    by (simp add: rfile_read_def demo_runtime_def post_def)
  have u: "utf8_decode demo_runtime ''not-json'' = Inr ''not-json''"
    by (simp add: demo_runtime_def)
  have l: "json_loads demo_runtime ''not-json'' = Inl JSONDecodeError"
    by (simp add: demo_runtime_def demo_bodies)
  from invalid_json_400 [OF p n r u l] p n r u l show ?thesis
    by simp
qed

text \<open>
  Against C7 as stated: a body of the single byte \<open>0xFF\<close> is not valid JSON, yet
  \<open>decode\<close> raises \<open>UnicodeDecodeError\<close>, which the generic clause turns into 500; the
  body \<open>not-json\<close> sent without a \<open>Content-Length\<close> header gets no reply at all, and
  neither does it with the header \<open>-2\<close>, which the read refuses.
\<close>

theorem invalid_json_400_counterexample:
  "do_POST demo_runtime (post ''/chat/completions'' ''1'' [CHR 0xFF])
     = ([Rfile_read 1, Log_error ''Error processing request: '' UnicodeDecodeError,
         Send_error 500 ''Internal Server Error''], None)
   \<and> do_POST demo_runtime (post_without_length ''/chat/completions'' ''not-json'')
     = ([], Some TypeError)
   \<and> do_POST demo_runtime (post ''/chat/completions'' ''-2'' ''not-json'')
     = ([], Some ValueError)"
  by code_simp

text \<open>
  C8. A POST whose path is not \<open>/chat/completions\<close> is answered with
  \<open>send_error(404, "Not Found")\<close> and nothing else: the handler does not read the body
  and does not call the logger, and the outcome is the same whatever the headers and the
  body are.
\<close>

theorem other_path_not_found:
  assumes "urlparse_path rt (path req) = Inr parsed_path"
    and "parsed_path \<noteq> ''/chat/completions''"
  shows "do_POST rt req = ([Send_error 404 ''Not Found''], None)
       \<and> do_POST rt (req\<lparr>headers := h, rfile := body\<rparr>) = do_POST rt req"
  using assms by (simp add: do_POST_def)

theorem other_path_not_found_witness:
  "urlparse_path demo_runtime (path (post ''/unknown'' ''75'' demo_body)) = Inr ''/unknown''
   \<and> ''/unknown'' \<noteq> ''/chat/completions''
   \<and> do_POST demo_runtime (post ''/unknown'' ''75'' demo_body)
       = ([Send_error 404 ''Not Found''], None)
   \<and> do_POST demo_runtime ((post ''/unknown'' ''75'' demo_body)\<lparr>headers := Map.empty, rfile := ''not-json''\<rparr>)
       = do_POST demo_runtime (post ''/unknown'' ''75'' demo_body)"
proof -
  have h: "urlparse_path demo_runtime (path (post ''/unknown'' ''75'' demo_body)) = Inr ''/unknown''"
    by (simp add: demo_runtime_def post_def)
  have d: "''/unknown'' \<noteq> ''/chat/completions''"
    by simp
  from other_path_not_found [OF h d, where h = Map.empty and body = "''not-json''"] h d
  show ?thesis
    by simp
qed

text \<open>
  C9. When the \<open>Content-Length\<close> header is absent, \<open>int(None)\<close> raises \<open>TypeError\<close>
  before the \<open>try\<close> statement is entered: the exception leaves the handler, which has
  read nothing, has not called the logger and has sent neither a 400 nor a 500.
\<close>

theorem missing_content_length_escapes:
  assumes "urlparse_path rt (path req) = Inr ''/chat/completions''"
    and "headers req ''Content-Length'' = None"
  shows "do_POST rt req = ([], Some TypeError)"
  using assms by (simp add: do_POST_def py_int_def)

theorem missing_content_length_escapes_witness:
  "urlparse_path demo_runtime (path (post_without_length ''/chat/completions'' demo_body))
     = Inr ''/chat/completions''
   \<and> headers (post_without_length ''/chat/completions'' demo_body) ''Content-Length'' = None
   \<and> do_POST demo_runtime (post_without_length ''/chat/completions'' demo_body)
     = ([], Some TypeError)"
proof -
  have p: "urlparse_path demo_runtime (path (post_without_length ''/chat/completions'' demo_body))
     = Inr ''/chat/completions''"
    by (simp add: demo_runtime_def post_without_length_def)
  have h: "headers (post_without_length ''/chat/completions'' demo_body) ''Content-Length'' = None"
    by (simp add: post_without_length_def)
  from missing_content_length_escapes [OF p h] p h show ?thesis
    by simp
qed

text \<open>
  C10. When the body that the handler has read parses to an object whose \<open>messages\<close> is
  a list with an element that is not an object, the loop that builds the prompt raises;
  the generic \<open>except\<close> clause logs the exception and answers 500, after the two log
  lines that precede the loop.
\<close>

theorem non_object_message_500:
  assumes "urlparse_path rt (path req) = Inr ''/chat/completions''"
    and "py_int rt (headers req ''Content-Length'') = Inr n"
    and "rfile_read rt req n = Inr post_data"
    and "loads_body rt post_data = Inr (JObj items)"
    and "map_of items ''messages'' = Some (JArr ms)"
    and "\<exists>m \<in> set ms. \<not> is_dict m"
  shows "\<exists>e log1 log2. concat_user '''' ms = Inl e
           \<and> do_POST rt req =
               ([Rfile_read n, Log_info log1, Log_info log2,
                 Log_error ''Error processing request: '' e,
                 Send_error 500 ''Internal Server Error''], None)"
proof -
  from concat_user_not_dict [OF assms(6)] obtain e where e: "concat_user '''' ms = Inl e"
    by blast
  then have "e \<noteq> JSONDecodeError"
    by (auto dest: concat_user_exn)
  with e assms(4,5) show ?thesis
    by (simp add: do_POST_try [OF assms(1-3)] try_block_dict py_len_def py_iter_def Let_def)
qed

theorem non_object_message_500_witness:
  "urlparse_path demo_runtime (path (post ''/chat/completions'' ''19'' string_message_body))
     = Inr ''/chat/completions''
   \<and> py_int demo_runtime
        (headers (post ''/chat/completions'' ''19'' string_message_body) ''Content-Length'')
       = Inr 19
   \<and> rfile_read demo_runtime (post ''/chat/completions'' ''19'' string_message_body) 19
       = Inr string_message_body
   \<and> loads_body demo_runtime string_message_body
       = Inr (JObj [(''messages'', JArr [JStr ''hi''])])
   \<and> map_of [(''messages'', JArr [JStr ''hi''])] ''messages''
       = Some (JArr [JStr ''hi'' :: rat json])
   \<and> (\<exists>m \<in> set [JStr ''hi'' :: rat json]. \<not> is_dict m)
   \<and> (\<exists>e log1 log2. concat_user '''' [JStr ''hi'' :: rat json] = Inl e
         \<and> do_POST demo_runtime (post ''/chat/completions'' ''19'' string_message_body) =
               ([Rfile_read 19, Log_info log1, Log_info log2,
                 Log_error ''Error processing request: '' e,
                 Send_error 500 ''Internal Server Error''], None))"
proof -
  have p: "urlparse_path demo_runtime (path (post ''/chat/completions'' ''19'' string_message_body))
     = Inr ''/chat/completions''"
    by (simp add: demo_runtime_def post_def)
  have m: "map_of [(''messages'', JArr [JStr ''hi''])] ''messages''
             = Some (JArr [JStr ''hi'' :: rat json])"
    by simp
  have d: "\<exists>m \<in> set [JStr ''hi'' :: rat json]. \<not> is_dict m"
    by (simp add: is_dict_def)
  from non_object_message_500 [OF p string_message_parsed m d] p string_message_parsed m d
  show ?thesis
    by blast
qed

end
